theory Spec2Isabelle
  imports Main "HOL-Library.Sublist"
begin

section \<open>VeriCore AI analysis engine (backend/main.py)\<close>

text \<open>
  The engine has two halves: \<open>generate_demo_analysis\<close>, the seeded demo simulator, and
  \<open>parse_llm_response\<close>, the fallback ladder that recovers a JSON value from a model
  completion. Both are embedded below, together with the parts of the Python runtime they
  call.

  A Python \<open>str\<close> is modelled as a \<open>string\<close>: a list of \<open>char\<close>, each \<open>char\<close> standing
  for the code point of the same number, so the texts covered are those whose code points
  are below 256. Python integers are \<open>int\<close>. An exception is a value of \<open>py_error\<close>, and a
  function that may raise returns \<open>py_error + 'a\<close>.
\<close>

subsection \<open>Runtime: exceptions, character classes, string helpers\<close>

datatype py_error = ValueError | RecursionError | JSONDecodeError

definition bind :: "py_error + 'a \<Rightarrow> ('a \<Rightarrow> py_error + 'b) \<Rightarrow> py_error + 'b" where
  "bind m f = (case m of Inl e \<Rightarrow> Inl e | Inr x \<Rightarrow> f x)"

definition code_point :: "char \<Rightarrow> nat" where
  "code_point c = of_char c"

text \<open>\<open>str.isdigit\<close> on code points below 256: the ASCII digits and the superscripts
  U+00B2, U+00B3, U+00B9.\<close>

definition isdigit :: "char \<Rightarrow> bool" where
  "isdigit c = (let n = code_point c in (48 \<le> n \<and> n \<le> 57) \<or> n = 178 \<or> n = 179 \<or> n = 185)"

text \<open>\<open>str.isspace\<close>, which is also what \<open>str.split()\<close> and the regex class \<open>\s\<close> use, on
  code points below 256: U+0009..U+000D, U+001C..U+0020, U+0085, U+00A0.\<close>

definition isspace :: "char \<Rightarrow> bool" where
  "isspace c = (let n = code_point c in (9 \<le> n \<and> n \<le> 13) \<or> (28 \<le> n \<and> n \<le> 32) \<or> n = 133 \<or> n = 160)"

text \<open>\<open>s.split()\<close>: the maximal runs of non-whitespace characters, in order. The first
  argument is the word being read, reversed.\<close>

fun split_from :: "string \<Rightarrow> string \<Rightarrow> string list" where
  "split_from w [] = (if w = [] then [] else [rev w])"
| "split_from w (c # cs) =
     (if isspace c then (if w = [] then split_from [] cs else rev w # split_from [] cs)
      else split_from (c # w) cs)"

definition split :: "string \<Rightarrow> string list" where
  "split s = split_from [] s"

text \<open>\<open>sep.join(ws)\<close>.\<close>

fun join :: "string \<Rightarrow> string list \<Rightarrow> string" where
  "join sep [] = []"
| "join sep [w] = w"
| "join sep (w # v # ws) = w @ sep @ join sep (v # ws)"

text \<open>\<open>str(n)\<close> for an integer: decimal digits, with a minus sign when negative.\<close>

fun str_nat :: "nat \<Rightarrow> string" where
  "str_nat n = (if n < 10 then [''0123456789'' ! n]
                else str_nat (n div 10) @ [''0123456789'' ! (n mod 10)])"

definition str_int :: "int \<Rightarrow> string" where
  "str_int i = (if i < 0 then CHR ''-'' # str_nat (nat (- i)) else str_nat (nat i))"

subsection \<open>Runtime: hashing, the shared random generator, the clock\<close>

text \<open>
  The simulator calls three library facilities whose code is not part of the repository.
  They are parameters of the model, collected in a record:
  \<^item> \<open>md5_hex8 t\<close> is \<open>int(hashlib.md5(t.encode()).hexdigest()[:8], 16)\<close>;
  \<^item> \<open>seed n\<close> is the state of the module-level generator after \<open>random.seed(n)\<close>;
  \<^item> \<open>randbelow g n\<close> is \<open>Random._randbelow(n)\<close> in state \<open>g\<close>: the number drawn and the
    next state;
  \<^item> \<open>upper\<close> is \<open>str.upper\<close>.
  The generator state is threaded explicitly: the simulator receives the state the
  module-level generator is in when it is called and returns the state it leaves behind.
  The wall clock, read once as \<open>datetime.now().strftime('%Y-%m-%d %H:%M:%S')\<close>, is an
  argument of the simulator.
\<close>

record 'r runtime =
  md5_hex8 :: "string \<Rightarrow> nat"
  seed :: "nat \<Rightarrow> 'r"
  randbelow :: "'r \<Rightarrow> nat \<Rightarrow> nat \<times> 'r"
  upper :: "string \<Rightarrow> string"

text \<open>\<open>random.randint(a, b)\<close> is \<open>a + _randbelow(b - a + 1)\<close> and raises \<open>ValueError\<close> on an
  empty range. The library's \<open>_randbelow(n)\<close> returns a number below \<open>n\<close>; the reduction
  modulo \<open>n\<close> imposes that on the parameter.\<close>

definition randint :: "'r runtime \<Rightarrow> int \<Rightarrow> int \<Rightarrow> 'r \<Rightarrow> py_error + int \<times> 'r" where
  "randint rt a b g =
     (if b < a then Inl ValueError
      else (case randbelow rt g (nat (b - a + 1)) of
              (r, g') \<Rightarrow> Inr (a + int (r mod nat (b - a + 1)), g')))"

subsection \<open>Data model\<close>

record issue =
  snippet :: string
  riskType :: string
  explanation :: string
  humanCheckHint :: string

record analysis =
  score :: int
  label :: string
  issues :: "issue list"
  complianceReport :: string
  ndaauditNote :: string

record template =
  t_riskType :: string
  t_explanation :: string
  t_humanCheckHint :: string

subsection \<open>The demo simulator: score and label\<close>

text \<open>Lines 204 to 210: the first draw and the two penalties.\<close>

definition penalised_base :: "'r runtime \<Rightarrow> string \<Rightarrow> 'r \<Rightarrow> py_error + int \<times> 'r" where
  "penalised_base rt answer_text g =
     (let text_length = length answer_text;
          has_numbers = list_ex isdigit answer_text;
          has_percentages = (CHR ''%'' \<in> set answer_text)
      in bind (randint rt 45 85 g) (\<lambda>(base_score, g).
         bind (if has_numbers \<and> has_percentages
               then bind (randint rt 5 15 g) (\<lambda>(d, g). Inr (base_score - d, g))
               else Inr (base_score, g)) (\<lambda>(base_score, g).
         if text_length > 500
         then bind (randint rt 0 10 g) (\<lambda>(d, g). Inr (base_score - d, g))
         else Inr (base_score, g))))"

text \<open>Lines 211 and 212: the bonus for a text of fewer than 20 words.\<close>

definition short_text_bonus :: "'r runtime \<Rightarrow> string \<Rightarrow> int \<times> 'r \<Rightarrow> py_error + int \<times> 'r" where
  "short_text_bonus rt answer_text bg =
     (case bg of (base_score, g) \<Rightarrow>
        let word_count = length (split answer_text)
        in if word_count < 20
           then bind (randint rt 5 10 g) (\<lambda>(d, g). Inr (base_score + d, g))
           else Inr (base_score, g))"

definition clamp_score :: "int \<Rightarrow> int" where
  "clamp_score base_score = max 20 (min 95 base_score)"

definition label_of :: "int \<Rightarrow> string" where
  "label_of s = (if s \<ge> 75 then ''High'' else if s \<ge> 50 then ''Medium'' else ''Low'')"

text \<open>Lines 193 to 214: seed the generator from the text, draw, clamp.\<close>

definition demo_score :: "'r runtime \<Rightarrow> string \<Rightarrow> py_error + int \<times> 'r" where
  "demo_score rt answer_text =
     (let text_hash = md5_hex8 rt answer_text;
          g = seed rt text_hash
      in bind (penalised_base rt answer_text g) (\<lambda>bg.
         bind (short_text_bonus rt answer_text bg) (\<lambda>(base_score, g).
         Inr (clamp_score base_score, g))))"

subsection \<open>The demo simulator: snippets, issues, narrative\<close>

text \<open>\<open>words[start:start + k]\<close> for non-negative \<open>start\<close> and \<open>k\<close>.\<close>

definition slice :: "'a list \<Rightarrow> int \<Rightarrow> int \<Rightarrow> 'a list" where
  "slice xs start k = take (nat k) (drop (nat start) xs)"

text \<open>Lines 225 to 234.\<close>

definition demo_snippets :: "'r runtime \<Rightarrow> string \<Rightarrow> 'r \<Rightarrow> py_error + string list \<times> 'r" where
  "demo_snippets rt answer_text g =
     (let words = split answer_text;
          n = int (length words)
      in bind (if n > 10
               then bind (randint rt 0 (min 5 (n - 5)) g) (\<lambda>(start, g).
                    bind (randint rt 4 8 g) (\<lambda>(k, g).
                    Inr ([join '' '' (slice words start k)], g)))
               else Inr ([], g)) (\<lambda>(snippets, g).
         bind (if n > 20
               then bind (randint rt 10 (min 15 (n - 5)) g) (\<lambda>(start, g).
                    bind (randint rt 4 8 g) (\<lambda>(k, g).
                    Inr (snippets @ [join '' '' (slice words start k)], g)))
               else Inr (snippets, g)) (\<lambda>(snippets, g).
         if snippets = []
         then Inr ([if length answer_text > 50 then take 50 answer_text @ ''...'' else answer_text], g)
         else Inr (snippets, g))))"

definition legal_templates :: "template list" where
  "legal_templates =
   [\<lparr>t_riskType = ''hallucination'',
     t_explanation = ''This statement references legal principles that require verification against current case law and jurisdiction-specific regulations.'',
     t_humanCheckHint = ''Verify the legal citation with a qualified attorney and check if it applies to the relevant jurisdiction.''\<rparr>,
    \<lparr>t_riskType = ''compliance-risk'',
     t_explanation = ''The language used may create unintended legal obligations or liabilities if taken as formal legal advice.'',
     t_humanCheckHint = ''Have legal counsel review before using in any binding documents or client communications.''\<rparr>,
    \<lparr>t_riskType = ''uncertain'',
     t_explanation = ''The claim lacks specific citations or references that would allow independent verification.'',
     t_humanCheckHint = ''Request source documentation or legal precedent supporting this assertion.''\<rparr>]"

definition finance_templates :: "template list" where
  "finance_templates =
   [\<lparr>t_riskType = ''hallucination'',
     t_explanation = ''Financial figures or projections mentioned require verification against audited financial statements.'',
     t_humanCheckHint = ''Cross-reference with official financial reports and have a CPA verify the calculations.''\<rparr>,
    \<lparr>t_riskType = ''compliance-risk'',
     t_explanation = ''This statement could be interpreted as financial advice, which may trigger regulatory requirements.'',
     t_humanCheckHint = ''Ensure appropriate disclaimers are included and review with compliance team.''\<rparr>,
    \<lparr>t_riskType = ''uncertain'',
     t_explanation = ''Market predictions or financial forecasts inherently carry uncertainty and should not be relied upon without additional analysis.'',
     t_humanCheckHint = ''Conduct independent market research and consult with financial advisors.''\<rparr>]"

definition compliance_templates :: "template list" where
  "compliance_templates =
   [\<lparr>t_riskType = ''hallucination'',
     t_explanation = ''References to specific regulations or compliance requirements need verification against current regulatory frameworks.'',
     t_humanCheckHint = ''Check the current version of referenced regulations and confirm applicability.''\<rparr>,
    \<lparr>t_riskType = ''compliance-risk'',
     t_explanation = ''The statement may not fully address all relevant compliance requirements for your industry or jurisdiction.'',
     t_humanCheckHint = ''Conduct a comprehensive compliance review with your regulatory affairs team.''\<rparr>,
    \<lparr>t_riskType = ''uncertain'',
     t_explanation = ''Regulatory interpretations can vary; this guidance may not reflect the position of all relevant regulatory bodies.'',
     t_humanCheckHint = ''Consult with regulatory counsel to confirm interpretation aligns with agency guidance.''\<rparr>]"

text \<open>\<open>issue_templates.get(context_type, issue_templates["legal"])\<close>.\<close>

definition issue_templates :: "string \<Rightarrow> template list" where
  "issue_templates context_type =
     (if context_type = ''legal'' then legal_templates
      else if context_type = ''finance'' then finance_templates
      else if context_type = ''compliance'' then compliance_templates
      else legal_templates)"

text \<open>\<open>context_names.get(context_type, "general")\<close> of line 271.\<close>

definition context_names :: "string \<Rightarrow> string" where
  "context_names context_type =
     (if context_type = ''legal'' then ''legal''
      else if context_type = ''finance'' then ''financial''
      else if context_type = ''compliance'' then ''regulatory compliance''
      else ''general'')"

definition num_issues_of :: "int \<Rightarrow> nat" where
  "num_issues_of s = (if s \<ge> 75 then 1 else (if s \<ge> 50 then 2 else 3))"

text \<open>Lines 259 to 267: the loop over \<open>range(min(num_issues, len(snippets), len(templates)))\<close>.\<close>

definition make_issue :: "string list \<Rightarrow> template list \<Rightarrow> nat \<Rightarrow> issue" where
  "make_issue snippets templates i =
     (let template = templates ! (i mod length templates)
      in \<lparr>snippet = take 100 (snippets ! (i mod length snippets)),
          riskType = t_riskType template,
          explanation = t_explanation template,
          humanCheckHint = t_humanCheckHint template\<rparr>)"

definition demo_issues :: "int \<Rightarrow> string list \<Rightarrow> template list \<Rightarrow> issue list" where
  "demo_issues s snippets templates =
     map (make_issue snippets templates)
       [0 ..< min (num_issues_of s) (min (length snippets) (length templates))]"

definition compliance_report :: "string \<Rightarrow> string \<Rightarrow> int \<Rightarrow> string" where
  "compliance_report lbl ctx_name s =
     (if lbl = ''High'' then
        ''Multi-model consensus analysis indicates this '' @ ctx_name @ '' content demonstrates generally acceptable trust levels with a score of '' @ str_int s @ ''/100. The AI-generated response appears well-structured and avoids major red flags. However, standard verification protocols should still be followed before relying on this content for critical decisions. Minor areas flagged for review do not represent significant compliance risks but warrant acknowledgment in audit documentation.''
      else if lbl = ''Medium'' then
        ''Analysis reveals moderate trust concerns in this '' @ ctx_name @ '' content with a consensus score of '' @ str_int s @ ''/100. Several claims require independent verification before the content can be used in official capacity. The multi-model review identified potential areas where the AI may have made assumptions or generalizations that need human expert validation. Recommend escalation to qualified professionals before proceeding.''
      else
        ''ALERT: This '' @ ctx_name @ '' content has received a low trust score of '' @ str_int s @ ''/100 from multi-model consensus analysis. Significant concerns have been identified including potential hallucinations, unverifiable claims, and compliance risks. This content should NOT be used without thorough review by qualified professionals. Immediate escalation to legal/compliance team is recommended.'')"

text \<open>Line 281. \<open>now\<close> is the formatted reading of the wall clock.\<close>

definition nda_audit_note :: "'r runtime \<Rightarrow> string \<Rightarrow> string \<Rightarrow> int \<Rightarrow> string \<Rightarrow> nat \<Rightarrow> string" where
  "nda_audit_note rt now context_type s lbl n =
     ''VeriCore AI analysis completed at '' @ now @ ''. Context: '' @ upper rt context_type
       @ ''. Trust Score: '' @ str_int s @ ''/100 ('' @ lbl @ '' confidence). ''
       @ str_nat n @ '' issue(s) flagged for review. ''
       @ (if True then ''Demo mode - simulated analysis.'' else ''Production analysis.'')"

text \<open>
  \<open>generate_demo_analysis(answer_text, context_type)\<close>. Besides the two arguments of the
  source, the model takes the runtime, the clock reading \<open>now\<close> and the state \<open>g0\<close> of the
  shared generator at the call; it returns the result and the state the generator is
  left in. \<open>random.seed\<close> overwrites \<open>g0\<close>. \<open>demo_result\<close> is lines 216 to 222 and 236
  to 289: everything computed from the score and the snippets without further draws.
\<close>

definition demo_result :: "'r runtime \<Rightarrow> string \<Rightarrow> string \<Rightarrow> int \<Rightarrow> string list \<Rightarrow> analysis" where
  "demo_result rt now context_type s snippets =
     (let lbl = label_of s;
          templates = issue_templates context_type;
          iss = demo_issues s snippets templates;
          ctx_name = context_names context_type
      in \<lparr>score = s,
          label = lbl,
          issues = iss,
          complianceReport = compliance_report lbl ctx_name s,
          ndaauditNote = nda_audit_note rt now context_type s lbl (length iss)\<rparr>)"

definition generate_demo_analysis ::
  "'r runtime \<Rightarrow> string \<Rightarrow> 'r \<Rightarrow> string \<Rightarrow> string \<Rightarrow> py_error + analysis \<times> 'r" where
  "generate_demo_analysis rt now g0 answer_text context_type =
     bind (demo_score rt answer_text) (\<lambda>(s, g).
     bind (demo_snippets rt answer_text g) (\<lambda>(snippets, g).
     Inr (demo_result rt now context_type s snippets, g)))"

subsection \<open>Definitions used to state the properties of the simulator\<close>

text \<open>\<open>returns Q m\<close>: the computation \<open>m\<close> raises nothing and its value satisfies \<open>Q\<close>.\<close>

definition returns :: "('a \<Rightarrow> bool) \<Rightarrow> py_error + 'a \<times> 'r \<Rightarrow> bool" where
  "returns Q m = (case m of Inl e \<Rightarrow> False | Inr (x, g) \<Rightarrow> Q x)"

text \<open>The issue count per label in the words of the specification: 1 for High, 2 for
  Medium, 3 for Low.\<close>

definition issueCountForLabel :: "string \<Rightarrow> nat" where
  "issueCountForLabel l = (if l = ''High'' then 1 else if l = ''Medium'' then 2 else 3)"

text \<open>A runtime on which the model can be evaluated. The theorems below hold for every
  runtime; this one only supplies concrete functions where an input has to be run, and is
  neither MD5 nor the Mersenne Twister.\<close>

definition stub_runtime :: "nat runtime" where
  "stub_runtime = \<lparr>md5_hex8 = length, seed = (\<lambda>n. n),
     randbelow = (\<lambda>g n. (7 * g + 3, Suc g)), upper = (\<lambda>s. s)\<rparr>"


section \<open>The response parser\<close>

subsection \<open>JSON values and the limits of the interpreter\<close>

text \<open>
  \<open>parse_llm_response\<close> returns what \<open>json.loads\<close> returns, or a dictionary literal. Both
  are values of \<open>json\<close>. A decoded string is a list of code points, since an escape
  \<open>\uXXXX\<close> denotes code points beyond 255. A dictionary is the list of its items in
  insertion order, with distinct keys. \<open>JFloat\<close> carries the literal the float was read
  from (or \<open>NaN\<close>, \<open>Infinity\<close>, \<open>-Infinity\<close>); the float it denotes is not modelled.
\<close>

type_synonym ustring = "nat list"

datatype json =
    JNull
  | JBool bool
  | JInt int
  | JFloat string
  | JStr ustring
  | JArr "json list"
  | JObj "(ustring \<times> json) list"

text \<open>
  Two limits of the interpreter decide whether \<open>json.loads\<close> raises something other than
  \<open>JSONDecodeError\<close>:
  \<^item> \<open>recursion_limit\<close>: how many containers may be nested before the decoder hits the
    recursion limit (\<open>sys.getrecursionlimit()\<close> less the frames in use at the call); the
    decoder enters one recursive call per array or object;
  \<^item> \<open>max_str_digits\<close>: \<open>sys.get_int_max_str_digits()\<close>, 4300 unless changed, 0 for no
    limit; converting an integer literal with more digits raises \<open>ValueError\<close>.
\<close>

record limits =
  recursion_limit :: nat
  max_str_digits :: nat

definition python_limits :: limits where
  "python_limits = \<lparr>recursion_limit = 1000, max_str_digits = 4300\<rparr>"

definition ustr :: "string \<Rightarrow> ustring" where
  "ustr s = map code_point s"

text \<open>\<open>d[k] = v\<close> on a dictionary: a present key keeps its place and takes the new value, a
  new key goes to the end. \<open>dict_of_pairs\<close> is \<open>dict(pairs)\<close>.\<close>

fun dict_set :: "ustring \<Rightarrow> json \<Rightarrow> (ustring \<times> json) list \<Rightarrow> (ustring \<times> json) list" where
  "dict_set k v [] = [(k, v)]"
| "dict_set k v ((k', v') # kvs) =
     (if k = k' then (k, v) # kvs else (k', v') # dict_set k v kvs)"

definition dict_of_pairs :: "(ustring \<times> json) list \<Rightarrow> (ustring \<times> json) list" where
  "dict_of_pairs ps = foldl (\<lambda>d (k, v). dict_set k v d) [] ps"

subsection \<open>json.loads: characters\<close>

text \<open>
  \<open>json.loads\<close> is library code. It is modelled as the decoder it implements, reading the
  text one character at a time with an explicit stack of open containers, so that a
  text and its prefixes share their run. The decoder's whitespace is
  \<open>' '\<close>, \<open>\t\<close>, \<open>\n\<close>, \<open>\r\<close> only.
\<close>

definition json_ws :: "char \<Rightarrow> bool" where
  "json_ws c = (c = CHR '' '' \<or> c = CHR 0x09 \<or> c = CHR 0x0A \<or> c = CHR 0x0D)"

definition ascii_digit :: "char \<Rightarrow> bool" where
  "ascii_digit c = (48 \<le> code_point c \<and> code_point c \<le> 57)"

definition hex_digit :: "char \<Rightarrow> bool" where
  "hex_digit c = (let n = code_point c
                  in (48 \<le> n \<and> n \<le> 57) \<or> (65 \<le> n \<and> n \<le> 70) \<or> (97 \<le> n \<and> n \<le> 102))"

definition hex_value :: "char \<Rightarrow> nat" where
  "hex_value c = (let n = code_point c
                  in if n \<le> 57 then n - 48 else if n \<le> 70 then n - 55 else n - 87)"

definition int_16 :: "string \<Rightarrow> nat" where
  "int_16 ds = foldl (\<lambda>a c. 16 * a + hex_value c) 0 ds"

definition int_10 :: "string \<Rightarrow> int" where
  "int_10 ds = foldl (\<lambda>a c. 10 * a + int (code_point c - 48)) 0 ds"

subsection \<open>json.loads: string literals\<close>

text \<open>
  The state inside a string literal: the code points read so far, most recent first;
  whether the most recent one is a high surrogate that came from a \<open>\uXXXX\<close> escape and
  still may be joined with a low surrogate from the escape that follows it directly; and
  where in an escape the reader is (\<open>SEsc\<close> after the backslash, \<open>SHex\<close> with the hex digits
  read after \<open>\u\<close>). A control character below U+0020 is not allowed in a string.
\<close>

datatype str_state =
    SChars "nat list" bool
  | SEsc "nat list" bool
  | SHex "nat list" bool string

datatype str_result = SCont str_state | SClosed ustring | SBad

definition BACKSLASH :: "char \<Rightarrow> nat option" where
  "BACKSLASH c =
     (if c = CHR 0x22 then Some 34
      else if c = CHR 0x5C then Some 92
      else if c = CHR ''/'' then Some 47
      else if c = CHR ''b'' then Some 8
      else if c = CHR ''f'' then Some 12
      else if c = CHR ''n'' then Some 10
      else if c = CHR ''r'' then Some 13
      else if c = CHR ''t'' then Some 9
      else None)"

definition high_surrogate :: "nat \<Rightarrow> bool" where
  "high_surrogate u = (0xD800 \<le> u \<and> u \<le> 0xDBFF)"

definition low_surrogate :: "nat \<Rightarrow> bool" where
  "low_surrogate u = (0xDC00 \<le> u \<and> u \<le> 0xDFFF)"

definition join_surrogates :: "nat \<Rightarrow> nat \<Rightarrow> nat" where
  "join_surrogates h l = 0x10000 + ((h - 0xD800) * 1024 + (l - 0xDC00))"

definition emit_unit :: "nat list \<Rightarrow> bool \<Rightarrow> nat \<Rightarrow> str_state" where
  "emit_unit acc pend u =
     (case acc of
        h # acc' \<Rightarrow> if pend \<and> low_surrogate u then SChars (join_surrogates h u # acc') False
                    else SChars (u # acc) (high_surrogate u)
      | [] \<Rightarrow> SChars (u # acc) (high_surrogate u))"

fun scanstring :: "str_state \<Rightarrow> char \<Rightarrow> str_result" where
  "scanstring (SChars acc pend) c =
     (if c = CHR 0x22 then SClosed (rev acc)
      else if c = CHR 0x5C then SCont (SEsc acc pend)
      else if code_point c < 32 then SBad
      else SCont (SChars (code_point c # acc) False))"
| "scanstring (SEsc acc pend) c =
     (if c = CHR ''u'' then SCont (SHex acc pend [])
      else (case BACKSLASH c of Some u \<Rightarrow> SCont (SChars (u # acc) False) | None \<Rightarrow> SBad))"
| "scanstring (SHex acc pend ds) c =
     (if hex_digit c
      then (if length ds = 3 then SCont (emit_unit acc pend (int_16 (ds @ [c])))
            else SCont (SHex acc pend (ds @ [c])))
      else SBad)"

subsection \<open>json.loads: number literals\<close>

text \<open>
  The decoder matches \<open>(-?(?:0|[1-9][0-9]*))(\.[0-9]+)?([eE][-+]?[0-9]+)?\<close>. The states
  follow the pattern: after the sign; in the integer part; after a dot that no digit has
  followed yet; in the fraction; after an exponent marker that no digit has followed yet
  (with integer part, fraction and marker kept apart); in the exponent digits.
  \<open>match_number\<close> is \<open>None\<close> when the character cannot extend the match.
\<close>

datatype num_state =
    NMinus
  | NInt string
  | NDot string
  | NFrac string string
  | NExp string string string
  | NExpDigits string

fun match_number :: "num_state \<Rightarrow> char \<Rightarrow> num_state option" where
  "match_number NMinus c = (if ascii_digit c then Some (NInt [CHR ''-'', c]) else None)"
| "match_number (NInt ip) c =
     (if ascii_digit c then (if ip = ''0'' \<or> ip = ''-0'' then None else Some (NInt (ip @ [c])))
      else if c = CHR ''.'' then Some (NDot ip)
      else if c = CHR ''e'' \<or> c = CHR ''E'' then Some (NExp ip [] [c])
      else None)"
| "match_number (NDot ip) c = (if ascii_digit c then Some (NFrac ip [CHR ''.'', c]) else None)"
| "match_number (NFrac ip fp) c =
     (if ascii_digit c then Some (NFrac ip (fp @ [c]))
      else if c = CHR ''e'' \<or> c = CHR ''E'' then Some (NExp ip fp [c])
      else None)"
| "match_number (NExp ip fp ex) c =
     (if ascii_digit c then Some (NExpDigits (ip @ fp @ ex @ [c]))
      else if (c = CHR ''+'' \<or> c = CHR ''-'') \<and> length ex = 1 then Some (NExp ip fp (ex @ [c]))
      else None)"
| "match_number (NExpDigits t) c = (if ascii_digit c then Some (NExpDigits (t @ [c])) else None)"

text \<open>\<open>int(literal)\<close>, with the limit on the number of digits.\<close>

definition parse_int :: "limits \<Rightarrow> string \<Rightarrow> py_error + json" where
  "parse_int lim ip =
     (let neg = (take 1 ip = ''-'');
          ds = (if neg then drop 1 ip else ip)
      in if 0 < max_str_digits lim \<and> max_str_digits lim < length ds then Inl ValueError
         else Inr (JInt (if neg then - int_10 ds else int_10 ds)))"

text \<open>
  The value of the longest match when the number ends in the given state. In \<open>NDot\<close> and
  \<open>NExp\<close> the match ends before the dot or the exponent marker, which are then left over:
  \<open>number_stuck\<close>. A lone minus sign matches nothing.
\<close>

fun number_value :: "limits \<Rightarrow> num_state \<Rightarrow> py_error + json" where
  "number_value lim NMinus = Inl JSONDecodeError"
| "number_value lim (NInt ip) = parse_int lim ip"
| "number_value lim (NDot ip) = parse_int lim ip"
| "number_value lim (NFrac ip fp) = Inr (JFloat (ip @ fp))"
| "number_value lim (NExp ip fp ex) = (if fp = [] then parse_int lim ip else Inr (JFloat (ip @ fp)))"
| "number_value lim (NExpDigits t) = Inr (JFloat t)"

fun number_stuck :: "num_state \<Rightarrow> bool" where
  "number_stuck (NDot ip) = True"
| "number_stuck (NExp ip fp ex) = True"
| "number_stuck ns = False"

subsection \<open>json.loads: the decoder\<close>

text \<open>
  Where the decoder is: expecting a value (\<open>PValue\<close>); just after \<open>[\<close> (\<open>PArrStart\<close>) or \<open>{\<close>
  (\<open>PObjStart\<close>); expecting a key after a comma (\<open>PKey\<close>); expecting the colon (\<open>PColon\<close>);
  after a value inside a container (\<open>PAfter\<close>); inside a string (a key when the flag is
  set), a number, or a keyword of which the given characters remain. The stack holds the
  open containers, innermost first, each with what it has collected, most recent first;
  \<open>InPair\<close> is an object whose current key awaits its value.
\<close>

datatype mode =
    PValue | PArrStart | PObjStart | PKey | PColon | PAfter
  | PStr bool str_state
  | PNum num_state
  | PKw string json

datatype frame =
    InArr "json list"
  | InObj "(ustring \<times> json) list"
  | InPair "(ustring \<times> json) list" ustring

datatype pstate = Parsing mode "frame list" | Finished json | Failed py_error

fun attach :: "json \<Rightarrow> frame list \<Rightarrow> pstate" where
  "attach v [] = Finished v"
| "attach v (InArr vs # stk) = Parsing PAfter (InArr (v # vs) # stk)"
| "attach v (InPair kvs k # stk) = Parsing PAfter (InObj ((k, v) # kvs) # stk)"
| "attach v (InObj kvs # stk) = Failed JSONDecodeError"

fun close_array :: "frame list \<Rightarrow> pstate" where
  "close_array (InArr vs # stk) = attach (JArr (rev vs)) stk"
| "close_array stk = Failed JSONDecodeError"

fun close_object :: "frame list \<Rightarrow> pstate" where
  "close_object (InObj kvs # stk) = attach (JObj (dict_of_pairs (rev kvs))) stk"
| "close_object stk = Failed JSONDecodeError"

fun key_read :: "ustring \<Rightarrow> frame list \<Rightarrow> pstate" where
  "key_read k (InObj kvs # stk) = Parsing PColon (InPair kvs k # stk)"
| "key_read k stk = Failed JSONDecodeError"

text \<open>The first character of a value. Entering a container takes one level of recursion.\<close>

definition scan_once :: "limits \<Rightarrow> frame list \<Rightarrow> char \<Rightarrow> pstate" where
  "scan_once lim stk c =
     (if c = CHR 0x22 then Parsing (PStr False (SChars [] False)) stk
      else if c = CHR ''{'' then
        (if length stk < recursion_limit lim then Parsing PObjStart (InObj [] # stk)
         else Failed RecursionError)
      else if c = CHR ''['' then
        (if length stk < recursion_limit lim then Parsing PArrStart (InArr [] # stk)
         else Failed RecursionError)
      else if c = CHR ''n'' then Parsing (PKw ''ull'' JNull) stk
      else if c = CHR ''t'' then Parsing (PKw ''rue'' (JBool True)) stk
      else if c = CHR ''f'' then Parsing (PKw ''alse'' (JBool False)) stk
      else if c = CHR ''-'' then Parsing (PNum NMinus) stk
      else if ascii_digit c then Parsing (PNum (NInt [c])) stk
      else if c = CHR ''N'' then Parsing (PKw ''aN'' (JFloat ''NaN'')) stk
      else if c = CHR ''I'' then Parsing (PKw ''nfinity'' (JFloat ''Infinity'')) stk
      else Failed JSONDecodeError)"

text \<open>The character after a value: whitespace, a comma, the bracket that closes the
  innermost container; after the outermost value, whitespace only.\<close>

fun after_value :: "pstate \<Rightarrow> char \<Rightarrow> pstate" where
  "after_value (Finished v) c = (if json_ws c then Finished v else Failed JSONDecodeError)"
| "after_value (Failed e) c = Failed e"
| "after_value (Parsing m stk) c =
     (if json_ws c then Parsing m stk
      else (case stk of
              InArr vs # rest \<Rightarrow>
                if c = CHR '','' then Parsing PValue stk
                else if c = CHR '']'' then close_array stk
                else Failed JSONDecodeError
            | InObj kvs # rest \<Rightarrow>
                if c = CHR '','' then Parsing PKey stk
                else if c = CHR ''}'' then close_object stk
                else Failed JSONDecodeError
            | _ \<Rightarrow> Failed JSONDecodeError))"

text \<open>
  One character. A number ends at the first character that cannot extend it: its value
  is converted (which may raise), and the character is then read as the one after a
  value. \<open>-\<close> followed by \<open>I\<close> starts \<open>-Infinity\<close>.
\<close>

fun step :: "limits \<Rightarrow> pstate \<Rightarrow> char \<Rightarrow> pstate" where
  "step lim (Failed e) c = Failed e"
| "step lim (Finished v) c = after_value (Finished v) c"
| "step lim (Parsing PValue stk) c =
     (if json_ws c then Parsing PValue stk else scan_once lim stk c)"
| "step lim (Parsing PArrStart stk) c =
     (if json_ws c then Parsing PArrStart stk
      else if c = CHR '']'' then close_array stk
      else scan_once lim stk c)"
| "step lim (Parsing PObjStart stk) c =
     (if json_ws c then Parsing PObjStart stk
      else if c = CHR ''}'' then close_object stk
      else if c = CHR 0x22 then Parsing (PStr True (SChars [] False)) stk
      else Failed JSONDecodeError)"
| "step lim (Parsing PKey stk) c =
     (if json_ws c then Parsing PKey stk
      else if c = CHR 0x22 then Parsing (PStr True (SChars [] False)) stk
      else Failed JSONDecodeError)"
| "step lim (Parsing PColon stk) c =
     (if json_ws c then Parsing PColon stk
      else if c = CHR '':'' then Parsing PValue stk
      else Failed JSONDecodeError)"
| "step lim (Parsing PAfter stk) c = after_value (Parsing PAfter stk) c"
| "step lim (Parsing (PStr is_key ss) stk) c =
     (case scanstring ss c of
        SCont ss' \<Rightarrow> Parsing (PStr is_key ss') stk
      | SClosed u \<Rightarrow> if is_key then key_read u stk else attach (JStr u) stk
      | SBad \<Rightarrow> Failed JSONDecodeError)"
| "step lim (Parsing (PKw rest v) stk) c =
     (case rest of
        [] \<Rightarrow> Failed JSONDecodeError
      | r # rs \<Rightarrow> if c = r then (if rs = [] then attach v stk else Parsing (PKw rs v) stk)
                  else Failed JSONDecodeError)"
| "step lim (Parsing (PNum ns) stk) c =
     (if ns = NMinus \<and> c = CHR ''I'' then Parsing (PKw ''nfinity'' (JFloat ''-Infinity'')) stk
      else (case match_number ns c of
              Some ns' \<Rightarrow> Parsing (PNum ns') stk
            | None \<Rightarrow>
                (case number_value lim ns of
                   Inl e \<Rightarrow> Failed e
                 | Inr v \<Rightarrow> if number_stuck ns then Failed JSONDecodeError
                            else after_value (attach v stk) c)))"

text \<open>The end of the text: a value is returned when the outermost value is complete.\<close>

fun finish :: "limits \<Rightarrow> pstate \<Rightarrow> py_error + json" where
  "finish lim (Finished v) = Inr v"
| "finish lim (Failed e) = Inl e"
| "finish lim (Parsing (PNum ns) stk) =
     (case number_value lim ns of
        Inl e \<Rightarrow> Inl e
      | Inr v \<Rightarrow> if number_stuck ns \<or> stk \<noteq> [] then Inl JSONDecodeError else Inr v)"
| "finish lim (Parsing m stk) = Inl JSONDecodeError"

definition json_loads :: "limits \<Rightarrow> string \<Rightarrow> py_error + json" where
  "json_loads lim s = finish lim (foldl (step lim) (Parsing PValue []) s)"

subsection \<open>The two regular expressions of the fallback ladder\<close>

definition startswith :: "string \<Rightarrow> string \<Rightarrow> bool" where
  "startswith s p = (take (length p) s = p)"

text \<open>
  \<open>re.search(r'```(?:json)?\s*([\s\S]*?)\s*```', text)\<close>, group 1, by the matcher's own
  order of attempts. \<open>fence_close\<close> is the tail \<open>\s*```\<close>, greedy. \<open>lazy_group\<close> is the lazy
  group followed by that tail: the shortest group first. \<open>fence_body\<close> is the greedy
  \<open>\s*\<close> before the group, giving characters back when the rest fails. \<open>fence_at\<close> is a
  match that starts at the head of the text, trying the optional \<open>json\<close> first;
  \<open>search_fence\<close> tries the start positions from left to right.
\<close>

fun fence_close :: "string \<Rightarrow> bool" where
  "fence_close [] = False"
| "fence_close (c # cs) = ((isspace c \<and> fence_close cs) \<or> startswith (c # cs) ''```'')"

fun lazy_group :: "string \<Rightarrow> string option" where
  "lazy_group [] = (if fence_close [] then Some [] else None)"
| "lazy_group (c # cs) =
     (if fence_close (c # cs) then Some [] else map_option ((#) c) (lazy_group cs))"

fun fence_body :: "string \<Rightarrow> string option" where
  "fence_body [] = lazy_group []"
| "fence_body (c # cs) =
     (if isspace c
      then (case fence_body cs of Some g \<Rightarrow> Some g | None \<Rightarrow> lazy_group (c # cs))
      else lazy_group (c # cs))"

definition fence_at :: "string \<Rightarrow> string option" where
  "fence_at s =
     (if startswith s ''```''
      then (let r = drop 3 s
            in case (if startswith r ''json'' then fence_body (drop 4 r) else None) of
                 Some g \<Rightarrow> Some g
               | None \<Rightarrow> fence_body r)
      else None)"

fun search_fence :: "string \<Rightarrow> string option" where
  "search_fence [] = fence_at []"
| "search_fence (c # cs) =
     (case fence_at (c # cs) of Some g \<Rightarrow> Some g | None \<Rightarrow> search_fence cs)"

text \<open>
  \<open>re.search(r'\{[\s\S]*\}', text)\<close>, group 0. \<open>greedy_close\<close> is \<open>[\s\S]*\}\<close>: the longest
  prefix that ends with a closing brace.
\<close>

fun greedy_close :: "string \<Rightarrow> string option" where
  "greedy_close [] = None"
| "greedy_close (c # cs) =
     (case greedy_close cs of
        Some m \<Rightarrow> Some (c # m)
      | None \<Rightarrow> if c = CHR ''}'' then Some [c] else None)"

fun brace_at :: "string \<Rightarrow> string option" where
  "brace_at [] = None"
| "brace_at (c # cs) = (if c = CHR ''{'' then map_option ((#) c) (greedy_close cs) else None)"

fun search_brace :: "string \<Rightarrow> string option" where
  "search_brace [] = brace_at []"
| "search_brace (c # cs) =
     (case brace_at (c # cs) of Some m \<Rightarrow> Some m | None \<Rightarrow> search_brace cs)"

subsection \<open>parse_llm_response\<close>

text \<open>Lines 147 to 158.\<close>

definition fallback_response :: json where
  "fallback_response =
     JObj [(ustr ''score'', JInt 50),
           (ustr ''label'', JStr (ustr ''Medium'')),
           (ustr ''issues'', JArr [JObj
              [(ustr ''snippet'', JStr (ustr ''Unable to parse AI response'')),
               (ustr ''riskType'', JStr (ustr ''uncertain'')),
               (ustr ''explanation'', JStr (ustr ''The trust analysis could not be completed properly. Manual review recommended.'')),
               (ustr ''humanCheckHint'', JStr (ustr ''Please review the original content manually and re-run the analysis.''))]]),
           (ustr ''complianceReport'', JStr (ustr ''Analysis parsing encountered an issue. The AI-generated content should be reviewed manually by a qualified professional before any decisions are made based on it.'')),
           (ustr ''ndaauditNote'', JStr (ustr ''Automated trust analysis incomplete. Manual compliance review required.''))]"

text \<open>\<open>try: return json.loads(s)\<close> / \<open>except json.JSONDecodeError: pass\<close>, followed by the
  rest of the function: any other exception leaves the function.\<close>

definition try_loads :: "limits \<Rightarrow> string \<Rightarrow> py_error + json \<Rightarrow> py_error + json" where
  "try_loads lim s otherwise =
     (case json_loads lim s of
        Inr v \<Rightarrow> Inr v
      | Inl e \<Rightarrow> if e = JSONDecodeError then otherwise else Inl e)"

text \<open>Lines 122 to 158. \<open>third\<close> is the function from line 138 on.\<close>

definition parse_llm_response :: "limits \<Rightarrow> string \<Rightarrow> py_error + json" where
  "parse_llm_response lim response_text =
     try_loads lim response_text
       (let third =
              (case search_brace response_text of
                 Some m \<Rightarrow> try_loads lim m (Inr fallback_response)
               | None \<Rightarrow> Inr fallback_response)
        in case search_fence response_text of
             Some g \<Rightarrow> try_loads lim g third
           | None \<Rightarrow> third)"

subsection \<open>Definitions used to state the properties of the parser\<close>

text \<open>The shape of an AnalysisResult: an object with an integer score, a label among
  High, Medium, Low, a list of issues, each with its four string fields and a risk type
  among the three known ones, and the two narrative strings.\<close>

definition dict_get :: "(ustring \<times> json) list \<Rightarrow> string \<Rightarrow> json option" where
  "dict_get d k = map_of d (ustr k)"

definition has_str :: "(ustring \<times> json) list \<Rightarrow> string \<Rightarrow> bool" where
  "has_str d k = (case dict_get d k of Some (JStr s) \<Rightarrow> True | _ \<Rightarrow> False)"

definition has_str_in :: "(ustring \<times> json) list \<Rightarrow> string \<Rightarrow> string list \<Rightarrow> bool" where
  "has_str_in d k allowed =
     (case dict_get d k of Some (JStr s) \<Rightarrow> s \<in> set (map ustr allowed) | _ \<Rightarrow> False)"

definition valid_issue :: "json \<Rightarrow> bool" where
  "valid_issue v =
     (case v of
        JObj d \<Rightarrow> has_str d ''snippet''
                  \<and> has_str_in d ''riskType'' [''hallucination'', ''uncertain'', ''compliance-risk'']
                  \<and> has_str d ''explanation'' \<and> has_str d ''humanCheckHint''
      | _ \<Rightarrow> False)"

definition valid_analysis :: "json \<Rightarrow> bool" where
  "valid_analysis v =
     (case v of
        JObj d \<Rightarrow> (case dict_get d ''score'' of Some (JInt n) \<Rightarrow> True | _ \<Rightarrow> False)
                  \<and> has_str_in d ''label'' [''High'', ''Medium'', ''Low'']
                  \<and> (case dict_get d ''issues'' of Some (JArr xs) \<Rightarrow> list_all valid_issue xs | _ \<Rightarrow> False)
                  \<and> has_str d ''complianceReport'' \<and> has_str d ''ndaauditNote''
      | _ \<Rightarrow> False)"

text \<open>The number of issues a value carries, if it is an object with a list of issues.\<close>

definition issue_count :: "json \<Rightarrow> nat option" where
  "issue_count v =
     (case v of
        JObj d \<Rightarrow> (case dict_get d ''issues'' of Some (JArr xs) \<Rightarrow> Some (length xs) | _ \<Rightarrow> None)
      | _ \<Rightarrow> None)"

text \<open>The texts the ladder hands to \<open>json.loads\<close>: the whole response, the interior of the
  first fenced block, the span from the first opening to the last closing brace.\<close>

definition candidates :: "string \<Rightarrow> string list" where
  "candidates response_text =
     response_text # (case search_fence response_text of Some g \<Rightarrow> [g] | None \<Rightarrow> [])
       @ (case search_brace response_text of Some m \<Rightarrow> [m] | None \<Rightarrow> [])"

text \<open>\<open>rejected lim s\<close>: \<open>json.loads(s)\<close> raises \<open>JSONDecodeError\<close>. \<open>contains_json_object lim t\<close>: some
  contiguous part of \<open>t\<close> decodes to an object.\<close>

definition rejected :: "limits \<Rightarrow> string \<Rightarrow> bool" where
  "rejected lim s = (json_loads lim s = Inl JSONDecodeError)"

definition decodes_to_object :: "limits \<Rightarrow> string \<Rightarrow> bool" where
  "decodes_to_object lim s = (case json_loads lim s of Inr (JObj d) \<Rightarrow> True | _ \<Rightarrow> False)"

definition contains_json_object :: "limits \<Rightarrow> string \<Rightarrow> bool" where
  "contains_json_object lim t = list_ex (decodes_to_object lim) (sublists t)"

text \<open>A model response of the documented shape, and the record it denotes.\<close>

definition sample_response :: string where
  \<open>sample_response = ''{"score": 82, "label": "High", "issues": [{"snippet": "net 30 days", "riskType": "uncertain", "explanation": "No source is cited.", "humanCheckHint": "Check the contract."}], "complianceReport": "Low risk.", "ndaauditNote": "Reviewed."}''\<close>

definition sample_record :: json where
  "sample_record =
     JObj [(ustr ''score'', JInt 82),
           (ustr ''label'', JStr (ustr ''High'')),
           (ustr ''issues'', JArr [JObj
              [(ustr ''snippet'', JStr (ustr ''net 30 days'')),
               (ustr ''riskType'', JStr (ustr ''uncertain'')),
               (ustr ''explanation'', JStr (ustr ''No source is cited.'')),
               (ustr ''humanCheckHint'', JStr (ustr ''Check the contract.''))]]),
           (ustr ''complianceReport'', JStr (ustr ''Low risk.'')),
           (ustr ''ndaauditNote'', JStr (ustr ''Reviewed.''))]"

text \<open>\<open>top_level st\<close>: the decoder is reading and no container is open.\<close>

fun top_level :: "pstate \<Rightarrow> bool" where
  "top_level (Parsing m []) = True"
| "top_level st = False"

section \<open>Properties of the demo simulator\<close>

lemma bind_Inr [simp]: "bind (Inr x) f = f x"
  by (simp add: bind_def)

lemma bind_Inl [simp]: "bind (Inl e) f = Inl e"
  by (simp add: bind_def)

lemma returns_Inr [simp]: "returns Q (Inr (x, g)) = Q x"
  by (simp add: returns_def)

lemma returns_Inl [simp]: "returns Q (Inl e) = False"
  by (simp add: returns_def)

lemma returnsE:
  assumes "returns Q m"
  obtains x g where "m = Inr (x, g)" "Q x"
  using assms by (auto simp: returns_def split: sum.splits)

lemma returns_bind:
  assumes "returns Q1 m" and "\<And>x g. Q1 x \<Longrightarrow> returns Q2 (f x g)"
  shows "returns Q2 (bind m (case_prod f))"
  using assms by (auto elim!: returnsE)

lemma returns_if:
  assumes "c \<Longrightarrow> returns Q m1" and "\<not> c \<Longrightarrow> returns Q m2"
  shows "returns Q (if c then m1 else m2)"
  using assms by simp

lemma returns_randint:
  assumes "a \<le> b"
  shows "returns (\<lambda>x. a \<le> x \<and> x \<le> b) (randint rt a b g)"
proof -
  obtain r g' where rg: "randbelow rt g (nat (b - a + 1)) = (r, g')"
    by (cases "randbelow rt g (nat (b - a + 1))")
  have "r mod nat (b - a + 1) < nat (b - a + 1)"
    using assms by (intro mod_less_divisor) simp
  then have "int (r mod nat (b - a + 1)) \<le> b - a" by linarith
  then show ?thesis
    using assms rg by (simp add: randint_def)
qed

lemma returns_weaken:
  assumes "returns Q m" and "\<And>x. Q x \<Longrightarrow> Q' x"
  shows "returns Q' m"
  using assms by (auto elim!: returnsE)

lemma penalised_base_returns: "returns (\<lambda>b. True) (penalised_base rt t g)"
  unfolding penalised_base_def Let_def
  by (intro returns_bind [where ?Q1.0 = "\<lambda>b. True"] returns_if
        returns_weaken [OF returns_randint]) simp_all

lemma short_text_bonus_returns: "returns (\<lambda>b. True) (short_text_bonus rt t (b, g))"
  unfolding short_text_bonus_def Let_def prod.case
  by (intro returns_bind [where ?Q1.0 = "\<lambda>b. True"] returns_if
        returns_weaken [OF returns_randint]) simp_all

lemma clamp_score_range: "20 \<le> clamp_score b \<and> clamp_score b \<le> 95"
  by (simp add: clamp_score_def)

lemma demo_score_returns: "returns (\<lambda>s. 20 \<le> s \<and> s \<le> 95) (demo_score rt t)"
proof -
  obtain b g1 where 1: "penalised_base rt t (seed rt (md5_hex8 rt t)) = Inr (b, g1)"
    using penalised_base_returns by (rule returnsE)
  obtain b' g2 where 2: "short_text_bonus rt t (b, g1) = Inr (b', g2)"
    using short_text_bonus_returns by (rule returnsE)
  show ?thesis
    by (simp add: demo_score_def Let_def 1 2 clamp_score_range)
qed

lemma demo_snippets_returns:
  "returns (\<lambda>sn. sn \<noteq> [] \<and> length sn \<le> 2) (demo_snippets rt t g)"
  unfolding demo_snippets_def Let_def
  apply (rule returns_bind [where ?Q1.0 = "\<lambda>sn. length sn \<le> 1"])
   apply (rule returns_if)
    apply (rule returns_bind [OF returns_randint])
     apply simp
    apply (rule returns_bind [OF returns_randint])
     apply simp
    apply simp
   apply simp
  apply (rule returns_bind [where ?Q1.0 = "\<lambda>sn. length sn \<le> 2"])
   apply (rule returns_if)
    apply (rule returns_bind [OF returns_randint])
     apply simp
    apply (rule returns_bind [OF returns_randint])
     apply simp
    apply simp
   apply simp
  apply simp
  done


lemma generate_demo_analysis_unfold:
  "\<exists>s g1 sn g2. demo_score rt t = Inr (s, g1) \<and> 20 \<le> s \<and> s \<le> 95
     \<and> demo_snippets rt t g1 = Inr (sn, g2) \<and> sn \<noteq> [] \<and> length sn \<le> 2
     \<and> (\<forall>now g0 c. generate_demo_analysis rt now g0 t c = Inr (demo_result rt now c s sn, g2))"
proof -
  obtain s g1 where 1: "demo_score rt t = Inr (s, g1)" "20 \<le> s \<and> s \<le> 95"
    using demo_score_returns by (rule returnsE)
  obtain sn g2 where 2: "demo_snippets rt t g1 = Inr (sn, g2)" "sn \<noteq> [] \<and> length sn \<le> 2"
    using demo_snippets_returns by (rule returnsE)
  show ?thesis
    using 1 2 by (simp add: generate_demo_analysis_def)
qed

lemma demo_result_simps [simp]:
  "score (demo_result rt now c s sn) = s"
  "label (demo_result rt now c s sn) = label_of s"
  "issues (demo_result rt now c s sn) = demo_issues s sn (issue_templates c)"
  "complianceReport (demo_result rt now c s sn) = compliance_report (label_of s) (context_names c) s"
  "ndaauditNote (demo_result rt now c s sn) =
     nda_audit_note rt now c s (label_of s) (length (demo_issues s sn (issue_templates c)))"
  by (simp_all add: demo_result_def Let_def)

lemma length_issue_templates: "length (issue_templates c) = 3"
  by (simp add: issue_templates_def legal_templates_def finance_templates_def
      compliance_templates_def)

lemma length_demo_issues:
  "length (demo_issues s sn (issue_templates c)) = min (num_issues_of s) (min (length sn) 3)"
  by (simp add: demo_issues_def length_issue_templates)

lemma num_issues_of_label: "num_issues_of s = issueCountForLabel (label_of s)"
  by (simp add: num_issues_of_def issueCountForLabel_def label_of_def)


text \<open>
  Claim C6. Every call of the simulator returns, the score of its result lies between 20
  and 95, and the label is High for a score of at least 75, Medium for a score from 50 to
  74, Low below 50.
\<close>

theorem demo_score_range_and_label:
  "\<exists>res g'. generate_demo_analysis rt now g0 answer_text context_type = Inr (res, g')
      \<and> 20 \<le> score res \<and> score res \<le> 95
      \<and> label res = (if score res \<ge> 75 then ''High''
                      else if score res \<ge> 50 then ''Medium'' else ''Low'')"
  using generate_demo_analysis_unfold [of rt answer_text]
  by (auto simp: label_of_def)

text \<open>
  Claim C7. The number of issues of a demo result is the minimum of the issue count for
  its label (1 for High, 2 for Medium, 3 for Low), the number of snippets drawn from the
  text, and 3; so it never exceeds 3.
\<close>

theorem demo_issue_count:
  "\<exists>res g' s g1 snippets g2.
      generate_demo_analysis rt now g0 answer_text context_type = Inr (res, g')
      \<and> demo_score rt answer_text = Inr (s, g1)
      \<and> demo_snippets rt answer_text g1 = Inr (snippets, g2)
      \<and> length (issues res) = min (issueCountForLabel (label res)) (min (length snippets) 3)
      \<and> length (issues res) \<le> 3"
  using generate_demo_analysis_unfold [of rt answer_text]
  by (auto simp: length_demo_issues num_issues_of_label)

text \<open>
  Claim C10. Score and label of a demo result depend on the text only: two calls on the
  same text with any two categories (and any clock readings and generator states) return
  the same score and the same label.
\<close>

theorem demo_score_label_category_independent:
  "\<exists>res1 g1' res2 g2'.
      generate_demo_analysis rt now1 g1 answer_text c1 = Inr (res1, g1')
      \<and> generate_demo_analysis rt now2 g2 answer_text c2 = Inr (res2, g2')
      \<and> score res1 = score res2 \<and> label res1 = label res2"
  using generate_demo_analysis_unfold [of rt answer_text]
  by auto

text \<open>
  Claim C1, as amended. Two calls with the same text and category that read the same clock
  return the same record and leave the generator in the same state, whatever state it was
  in before; a call that reads another clock returns that record with at most the audit
  note changed. So score, label, issues and complianceReport are functions of the text
  and the category alone, and the audit note is one of text, category and clock reading.
\<close>

theorem demo_deterministic_up_to_clock:
  "\<exists>res g' note.
      generate_demo_analysis rt now g1 answer_text context_type = Inr (res, g')
      \<and> generate_demo_analysis rt now g2 answer_text context_type = Inr (res, g')
      \<and> generate_demo_analysis rt now' g2 answer_text context_type
          = Inr (res\<lparr>ndaauditNote := note\<rparr>, g')"
proof -
  obtain s sn g where
    gen: "\<And>now g0 c. generate_demo_analysis rt now g0 answer_text c = Inr (demo_result rt now c s sn, g)"
    using generate_demo_analysis_unfold [of rt answer_text] by blast
  have "demo_result rt now' context_type s sn
        = (demo_result rt now context_type s sn)
            \<lparr>ndaauditNote := ndaauditNote (demo_result rt now' context_type s sn)\<rparr>"
    by (simp add: demo_result_def Let_def)
  then show ?thesis
    using gen by metis
qed

text \<open>
  Claim C1 as stated fails: the audit note embeds the time of the call, so two calls with
  identical text and category made in different seconds return different records.
\<close>

theorem demo_audit_note_depends_on_clock:
  "generate_demo_analysis stub_runtime ''2026-11-03 09:00:00'' 0 ''Contract terms appear standard.'' ''legal''
   \<noteq> generate_demo_analysis stub_runtime ''2026-11-03 09:00:01'' 0 ''Contract terms appear standard.'' ''legal''"
proof -
  obtain s sn g where
    gen: "\<And>now g0 c. generate_demo_analysis stub_runtime now g0 ''Contract terms appear standard.'' c
            = Inr (demo_result stub_runtime now c s sn, g)"
    using generate_demo_analysis_unfold [of stub_runtime "''Contract terms appear standard.''"] by blast
  have neq: "ndaauditNote (demo_result stub_runtime ''2026-11-03 09:00:00'' ''legal'' s sn)
        \<noteq> ndaauditNote (demo_result stub_runtime ''2026-11-03 09:00:01'' ''legal'' s sn)"
    by (simp add: nda_audit_note_def)
  show ?thesis
  proof
    assume "generate_demo_analysis stub_runtime ''2026-11-03 09:00:00'' 0 ''Contract terms appear standard.'' ''legal''
      = generate_demo_analysis stub_runtime ''2026-11-03 09:00:01'' 0 ''Contract terms appear standard.'' ''legal''"
    then have "demo_result stub_runtime ''2026-11-03 09:00:00'' ''legal'' s sn
      = demo_result stub_runtime ''2026-11-03 09:00:01'' ''legal'' s sn"
      by (simp only: gen sum.inject prod.inject)
    then show False
      using neq by (simp only:)
  qed
qed

text \<open>The simulator emits at least one issue.\<close>

lemma demo_emits_issue:
  "\<exists>res g'. generate_demo_analysis rt now g0 answer_text context_type = Inr (res, g')
      \<and> 1 \<le> length (issues res)"
proof -
  obtain s sn g where "sn \<noteq> []"
    and gen: "\<And>now g0 c. generate_demo_analysis rt now g0 answer_text c = Inr (demo_result rt now c s sn, g)"
    using generate_demo_analysis_unfold [of rt answer_text] by blast
  moreover have "1 \<le> num_issues_of s"
    by (simp add: num_issues_of_def)
  moreover have "1 \<le> length sn"
    using \<open>sn \<noteq> []\<close> by (cases sn) simp_all
  ultimately show ?thesis
    by (simp add: length_demo_issues)
qed

text \<open>
  Claim C9. For a text of fewer than 20 words the simulator draws a bonus \<open>d\<close> from 5 to 10
  after the penalties; the score of the result is the clamped sum of the penalised base
  and \<open>d\<close>, and it is at least the clamped penalised base, which is the score the same
  draws give without the bonus.
\<close>

theorem short_text_bonus_monotone:
  assumes "length (split answer_text) < 20"
  shows "\<exists>base g d g' res gf.
      penalised_base rt answer_text (seed rt (md5_hex8 rt answer_text)) = Inr (base, g)
      \<and> randint rt 5 10 g = Inr (d, g')
      \<and> generate_demo_analysis rt now g0 answer_text context_type = Inr (res, gf)
      \<and> score res = clamp_score (base + d)
      \<and> clamp_score base \<le> score res"
proof -
  obtain b g where 1: "penalised_base rt answer_text (seed rt (md5_hex8 rt answer_text)) = Inr (b, g)"
    using penalised_base_returns by (rule returnsE)
  have "returns (\<lambda>x. 5 \<le> x \<and> x \<le> 10) (randint rt 5 10 g)"
    by (rule returns_randint) simp
  then obtain d g' where 2: "randint rt 5 10 g = Inr (d, g')" "5 \<le> d \<and> d \<le> 10"
    by (rule returnsE)
  have 3: "demo_score rt answer_text = Inr (clamp_score (b + d), g')"
    using assms by (simp add: demo_score_def short_text_bonus_def Let_def 1 2)
  obtain sn g2 where 4: "demo_snippets rt answer_text g' = Inr (sn, g2)"
    using demo_snippets_returns by (rule returnsE)
  have "clamp_score b \<le> clamp_score (b + d)"
    using 2(2) unfolding clamp_score_def by linarith
  then show ?thesis
    using 1 2 3 4 by (simp add: generate_demo_analysis_def)
qed

theorem short_text_bonus_monotone_witness:
  "length (split ''Contract terms appear standard.'') < 20 \<and>
   (\<exists>base g d g' res gf.
      penalised_base stub_runtime ''Contract terms appear standard.''
        (seed stub_runtime (md5_hex8 stub_runtime ''Contract terms appear standard.'')) = Inr (base, g)
      \<and> randint stub_runtime 5 10 g = Inr (d, g')
      \<and> generate_demo_analysis stub_runtime ''2026-11-03 09:00:00'' 0 ''Contract terms appear standard.'' ''legal'' = Inr (res, gf)
      \<and> score res = clamp_score (base + d)
      \<and> clamp_score base \<le> score res)"
proof -
  have h: "length (split ''Contract terms appear standard.'') < 20"
    by (simp add: split_def isspace_def code_point_def)
  show ?thesis
    using h short_text_bonus_monotone [OF h, of stub_runtime "''2026-11-03 09:00:00''" 0 "''legal''"] by blast
qed



section \<open>Properties of the response parser\<close>

lemma run_Failed [simp]: "foldl (step lim) (Failed e) cs = Failed e"
  by (induction cs) simp_all

lemma run_open_brackets:
  "j + k \<le> recursion_limit lim \<Longrightarrow>
   foldl (step lim) (Parsing PArrStart (replicate j (InArr []))) (replicate k CHR ''['')
     = Parsing PArrStart (replicate (j + k) (InArr []))"
proof (induction k arbitrary: j)
  case 0
  then show ?case by simp
next
  case (Suc k)
  have "step lim (Parsing PArrStart (replicate j (InArr []))) CHR ''[''
        = Parsing PArrStart (replicate (Suc j) (InArr []))"
    using Suc.prems by (simp add: scan_once_def json_ws_def)
  then show ?case
    using Suc.IH [of "Suc j"] Suc.prems by simp
qed

lemma json_loads_too_deep:
  "json_loads lim (replicate (Suc (recursion_limit lim)) CHR ''['') = Inl RecursionError"
proof (cases "recursion_limit lim")
  case 0
  then show ?thesis
    by (simp add: json_loads_def scan_once_def json_ws_def)
next
  case (Suc n)
  have first: "step lim (Parsing PValue []) CHR ''['' = Parsing PArrStart (replicate 1 (InArr []))"
    using Suc by (simp add: scan_once_def json_ws_def)
  have "foldl (step lim) (Parsing PArrStart (replicate 1 (InArr []))) (replicate n CHR ''['')
        = Parsing PArrStart (replicate (1 + n) (InArr []))"
    by (rule run_open_brackets) (simp add: Suc)
  moreover have "step lim (Parsing PArrStart (replicate (1 + n) (InArr []))) CHR ''[''
        = Failed RecursionError"
    using Suc by (simp add: scan_once_def json_ws_def)
  moreover have "replicate (Suc (recursion_limit lim)) CHR ''[''
        = CHR ''['' # replicate n CHR ''['' @ [CHR ''['']"
    by (simp add: Suc replicate_append_same)
  ultimately show ?thesis
    using first by (simp add: json_loads_def)
qed

text \<open>
  Claim C2 fails on the code. \<open>parse_llm_response\<close> catches \<open>json.JSONDecodeError\<close> only;
  on a text that opens more arrays than the interpreter allows nested calls, \<open>json.loads\<close>
  raises \<open>RecursionError\<close>, and the exception leaves \<open>parse_llm_response\<close>. This holds for
  every value of the limits.
\<close>

theorem parse_raises_on_deep_nesting:
  "parse_llm_response lim (replicate (Suc (recursion_limit lim)) CHR ''['') = Inl RecursionError"
  unfolding parse_llm_response_def try_loads_def json_loads_too_deep by simp

lemma lazy_group_prefix: "lazy_group s = Some g \<Longrightarrow> prefix g s"
  by (induction s arbitrary: g) (auto split: if_splits)

lemma fence_body_sublist: "fence_body s = Some g \<Longrightarrow> sublist g s"
proof (induction s)
  case Nil
  then show ?case by (auto dest: lazy_group_prefix)
next
  case (Cons c cs)
  then show ?case
    by (auto split: if_splits option.splits dest!: lazy_group_prefix
        simp: sublist_Cons_right)
qed

lemma sublist_drop_trans: "sublist g (drop n s) \<Longrightarrow> sublist g s"
  using sublist_drop sublist_order.order_trans by blast

lemma fence_at_sublist: "fence_at s = Some g \<Longrightarrow> sublist g s"
  by (auto simp: fence_at_def Let_def drop_drop split: if_splits option.splits
      dest!: fence_body_sublist intro: sublist_drop_trans)

lemma search_fence_sublist: "search_fence s = Some g \<Longrightarrow> sublist g s"
proof (induction s)
  case Nil
  then show ?case by (auto dest: fence_at_sublist)
next
  case (Cons c cs)
  then show ?case
    by (auto split: option.splits dest: fence_at_sublist simp: sublist_Cons_right)
qed

lemma greedy_close_prefix: "greedy_close s = Some m \<Longrightarrow> prefix m s"
  by (induction s arbitrary: m) (auto split: option.splits if_splits)

lemma brace_at_prefix: "brace_at s = Some m \<Longrightarrow> prefix m s"
  by (cases s) (auto split: if_splits dest: greedy_close_prefix)

lemma search_brace_sublist: "search_brace s = Some m \<Longrightarrow> sublist m s"
proof (induction s)
  case Nil
  then show ?case by simp
next
  case (Cons c cs)
  show ?case
  proof (cases "brace_at (c # cs)")
    case None
    then show ?thesis
      using Cons by (simp add: sublist_Cons_right)
  next
    case (Some m')
    then have "prefix m' (c # cs)"
      by (rule brace_at_prefix)
    then show ?thesis
      using Cons.prems Some by (simp add: sublist_Cons_right)
  qed
qed

lemma parse_fallback_if_all_rejected:
  assumes "json_loads lim t = Inl JSONDecodeError"
    and "\<And>g. search_fence t = Some g \<Longrightarrow> json_loads lim g = Inl JSONDecodeError"
    and "\<And>m. search_brace t = Some m \<Longrightarrow> json_loads lim m = Inl JSONDecodeError"
  shows "parse_llm_response lim t = Inr fallback_response"
  using assms by (simp add: parse_llm_response_def try_loads_def Let_def split: option.splits)

text \<open>
  Claim C4 fails on the code. The text \<open>42\<close> contains no JSON object anywhere, so the claim
  asks for the fallback record; the first rung hands the text to \<open>json.loads\<close>, which
  accepts any JSON value, and the function declared to return a dictionary returns the
  integer 42.
\<close>

theorem parse_number_not_fallback:
  "\<not> contains_json_object python_limits ''42''
   \<and> parse_llm_response python_limits ''42'' = Inr (JInt 42)
   \<and> JInt 42 \<noteq> fallback_response"
  by code_simp

text \<open>The example of the specification.\<close>

lemma parse_refusal_sentence:
  "parse_llm_response python_limits ''I cannot comply with this request.'' = Inr fallback_response"
  by code_simp

lemma parse_is_fallback_or_candidate:
  "parse_llm_response lim t = Inr fallback_response
   \<or> parse_llm_response lim t \<in> set (map (json_loads lim) (candidates t))"
  by (auto simp: parse_llm_response_def try_loads_def candidates_def Let_def
      split: option.splits sum.splits)


lemma parse_never_decode_error: "parse_llm_response lim t \<noteq> Inl JSONDecodeError"
  by (auto simp: parse_llm_response_def try_loads_def Let_def
      split: option.splits sum.splits if_splits)

lemma parse_fallback_if_candidates_rejected:
  assumes "list_all (rejected lim) (candidates t)"
  shows "parse_llm_response lim t = Inr fallback_response"
  by (rule parse_fallback_if_all_rejected)
    (use assms in \<open>auto simp: candidates_def rejected_def\<close>)

lemma parse_object_origin:
  assumes "parse_llm_response lim t = Inr (JObj d)"
  shows "JObj d = fallback_response
    \<or> Inr (JObj d) \<in> set (map (json_loads lim) (candidates t))"
  using assms parse_is_fallback_or_candidate [of lim t] by auto

text \<open>
  Claim C3, as amended. For every input: the parser never ends in a decode error; when
  \<open>json.loads\<close> rejects all three candidates it returns the fallback record, which has the
  shape of an AnalysisResult; and when it returns an object, that object is the fallback
  record or the object \<open>json.loads\<close> decoded from one of the candidates, returned as
  decoded, with no check of its fields.
\<close>

theorem parse_result_shape:
  "valid_analysis fallback_response
   \<and> parse_llm_response lim t \<noteq> Inl JSONDecodeError
   \<and> (list_all (rejected lim) (candidates t)
        \<longrightarrow> parse_llm_response lim t = Inr fallback_response)
   \<and> (parse_llm_response lim t = Inr (JObj d)
        \<longrightarrow> JObj d = fallback_response
            \<or> Inr (JObj d) \<in> set (map (json_loads lim) (candidates t)))"
proof -
  have "valid_analysis fallback_response"
    by code_simp
  then show ?thesis
    using parse_never_decode_error parse_fallback_if_candidates_rejected parse_object_origin
    by blast
qed

theorem parse_result_shape_witness:
  "list_all (rejected python_limits) (candidates ''I cannot comply with this request.'')
   \<and> parse_llm_response python_limits ''I cannot comply with this request.''
       = Inr fallback_response
   \<and> parse_llm_response python_limits ''{}'' = Inr (JObj [])
   \<and> Inr (JObj []) \<in> set (map (json_loads python_limits) (candidates ''{}''))"
proof -
  have h1: "list_all (rejected python_limits) (candidates ''I cannot comply with this request.'')"
    by code_simp
  have h2: "parse_llm_response python_limits ''{}'' = Inr (JObj [])"
    by code_simp
  have h3: "JObj [] \<noteq> fallback_response"
    by code_simp
  show ?thesis
    using h1 h2 h3
      parse_result_shape [of python_limits "''I cannot comply with this request.''"]
      parse_result_shape [of python_limits "''{}''" "[]"]
    by blast
qed

text \<open>Claim C3 as stated fails: the empty object is returned as decoded, and it has none
  of the fields of an AnalysisResult.\<close>

theorem parse_empty_object_not_analysis:
  "parse_llm_response python_limits ''{}'' = Inr (JObj []) \<and> \<not> valid_analysis (JObj [])"
  by code_simp

text \<open>
  Claim C8, as amended. The demo simulator emits at least one issue for every text and
  category; the fallback record of the parser carries exactly one issue; and any other
  result of the parser is the outcome of \<open>json.loads\<close> on a candidate, whose list of issues
  is not checked.
\<close>

theorem engine_issue_counts:
  "(\<exists>res g'. generate_demo_analysis rt now g0 answer_text context_type = Inr (res, g')
        \<and> 1 \<le> length (issues res))
   \<and> issue_count fallback_response = Some 1
   \<and> (parse_llm_response lim t = Inr fallback_response
        \<or> parse_llm_response lim t \<in> set (map (json_loads lim) (candidates t)))"
proof -
  have "issue_count fallback_response = Some 1"
    by code_simp
  then show ?thesis
    using demo_emits_issue [of rt now g0 answer_text context_type]
      parse_is_fallback_or_candidate [of lim t] by simp
qed

text \<open>Claim C8 as stated fails: a model response that is a well-shaped record with an
  empty list of issues is returned with no issue.\<close>

theorem parse_keeps_empty_issue_list:
  \<open>map_sum id (\<lambda>v. (valid_analysis v, issue_count v))
     (parse_llm_response python_limits
        ''{"score": 90, "label": "High", "issues": [], "complianceReport": "ok", "ndaauditNote": "ok"}'')
   = Inr (True, Some 0)\<close>
  by code_simp

subsection \<open>Recovering an embedded object\<close>

lemma attach_not_top: "\<not> top_level (attach v stk)"
  by (cases "(v, stk)" rule: attach.cases) simp_all

lemma close_array_not_top: "\<not> top_level (close_array stk)"
  by (cases stk rule: close_array.cases) (simp_all add: attach_not_top)

lemma close_object_not_top: "\<not> top_level (close_object stk)"
  by (cases stk rule: close_object.cases) (simp_all add: attach_not_top)

lemma key_read_not_top: "\<not> top_level (key_read k stk)"
  by (cases "(k, stk)" rule: key_read.cases) simp_all

lemma scan_once_not_top: "stk \<noteq> [] \<Longrightarrow> \<not> top_level (scan_once lim stk c)"
  by (cases stk) (simp_all add: scan_once_def)

lemma after_value_not_top: "\<not> top_level st \<Longrightarrow> \<not> top_level (after_value st c)"
proof (cases st)
  case (Parsing m stk)
  assume "\<not> top_level st"
  then obtain f rest where "stk = f # rest"
    using Parsing by (cases stk) simp_all
  then show ?thesis
    using Parsing
    by (cases f) (simp_all add: close_array_not_top close_object_not_top del: close_array.simps close_object.simps)
qed simp_all

lemma step_not_top: "\<not> top_level st \<Longrightarrow> \<not> top_level (step lim st c)"
proof (cases st)
  case (Parsing m stk)
  assume nt: "\<not> top_level st"
  then have ne: "stk \<noteq> []"
    using Parsing by (cases stk) simp_all
  then obtain f rest where stk: "stk = f # rest"
    by (cases stk) simp_all
  have av: "\<And>st'. \<not> top_level st' \<Longrightarrow> \<not> top_level (after_value st' c)"
    by (rule after_value_not_top)
  show ?thesis
  proof (cases m)
    case (PNum ns)
    then show ?thesis
      using Parsing stk
      by (auto simp: attach_not_top after_value_not_top split: option.splits sum.splits)
  next
    case (PStr k ss)
    then show ?thesis
      using Parsing stk
      by (auto simp: attach_not_top key_read_not_top split: str_result.splits)
  next
    case (PKw r v)
    then show ?thesis
      using Parsing stk
      by (auto simp: attach_not_top split: list.splits)
  next
    case PAfter
    then show ?thesis
      using Parsing nt by (simp add: after_value_not_top del: after_value.simps)
  qed (use Parsing stk in \<open>simp_all add: scan_once_not_top close_array_not_top close_object_not_top
          del: close_array.simps close_object.simps\<close>)
qed simp_all

lemma run_not_top: "\<not> top_level st \<Longrightarrow> \<not> top_level (foldl (step lim) st cs)"
  by (induction cs arbitrary: st) (simp_all add: step_not_top)

lemma run_Finished: "foldl (step lim) (Finished v) cs = Finished v \<or> (\<exists>e. foldl (step lim) (Finished v) cs = Failed e)"
  by (induction cs) (auto)

lemma match_number_separator:
  "isspace c \<or> c = CHR ''`'' \<Longrightarrow> match_number ns c = None"
  by (cases ns) (auto simp: isspace_def ascii_digit_def code_point_def Let_def)

lemma separator_not_I: "isspace c \<or> c = CHR ''`'' \<Longrightarrow> c \<noteq> CHR ''I''"
  by (auto simp: isspace_def code_point_def Let_def)

lemma run_Finished_brace:
  assumes "cs \<noteq> []" and "last cs = CHR ''}''"
  shows "\<exists>e. foldl (step lim) (Finished v) cs = Failed e"
proof -
  have cs: "cs = butlast cs @ [CHR ''}'']"
    using assms by (metis append_butlast_last_id)
  have "foldl (step lim) (Finished v) (butlast cs) = Finished v
        \<or> (\<exists>e. foldl (step lim) (Finished v) (butlast cs) = Failed e)"
    by (rule run_Finished)
  then have "\<exists>e. foldl (step lim) (Finished v) (butlast cs @ [CHR ''}'']) = Failed e"
    by (auto simp: json_ws_def)
  then show ?thesis
    using cs by simp
qed

lemma prefix_rejected:
  assumes ok: "json_loads lim s = Inr J"
    and s: "s = CHR ''{'' # body @ ''}''"
    and n: "n < length s"
    and sep: "isspace (s ! n) \<or> s ! n = CHR ''`''"
  shows "json_loads lim (take n s) = Inl JSONDecodeError"
proof (cases n)
  case 0
  then show ?thesis by (simp add: json_loads_def)
next
  case (Suc k)
  define init where "init = Parsing PValue []"
  define st where "st = foldl (step lim) init (take n s)"
  define c where "c = s ! n"
  have split: "s = take n s @ c # drop (Suc n) s"
    using n by (simp add: c_def id_take_nth_drop)
  have final: "finish lim (foldl (step lim) (step lim st c) (drop (Suc n) s)) = Inr J"
  proof -
    have "foldl (step lim) init s = foldl (step lim) (step lim st c) (drop (Suc n) s)"
      by (subst split) (simp add: st_def)
    then show ?thesis
      using ok by (simp add: json_loads_def init_def)
  qed
  have not_failed: "st \<noteq> Failed e" for e
    using final by auto
  have step_not_failed: "step lim st c \<noteq> Failed e" for e
    using final by auto
  have "\<not> top_level (step lim init CHR ''{'')"
    by (simp add: init_def scan_once_def json_ws_def)
  moreover have "st = foldl (step lim) (step lim init CHR ''{'') (take k (body @ ''}''))"
    by (simp add: st_def s Suc)
  ultimately have not_top: "\<not> top_level st"
    by (simp add: run_not_top)
  have not_finished: "st \<noteq> Finished v" for v
  proof
    assume fin: "st = Finished v"
    have "c # drop (Suc n) s \<noteq> []" by simp
    moreover have "last (c # drop (Suc n) s) = CHR ''}''"
    proof -
      have "last s = CHR ''}''" by (simp add: s)
      then show ?thesis
        by (subst (asm) split) simp
    qed
    ultimately obtain e where "foldl (step lim) (Finished v) (c # drop (Suc n) s) = Failed e"
      using run_Finished_brace by blast
    then show False
      using final fin by simp
  qed
  obtain m stk where st: "st = Parsing m stk" and stk: "stk \<noteq> []"
    using not_top not_failed not_finished by (cases st rule: top_level.cases) auto
  have "finish lim st = Inl JSONDecodeError"
  proof (cases m)
    case (PNum ns)
    have mn: "match_number ns c = None" and nI: "c \<noteq> CHR ''I''"
      using sep by (simp_all add: c_def match_number_separator separator_not_I)
    show ?thesis
    proof (cases "number_value lim ns")
      case (Inl e)
      then have "step lim st c = Failed e"
        using st PNum mn nI by simp
      then show ?thesis
        using step_not_failed by blast
    next
      case (Inr v)
      then show ?thesis
        using st PNum stk by simp
    qed
  qed (use st in simp_all)
  then show ?thesis
    by (simp add: json_loads_def st_def init_def)
qed

lemma fence_close_head: "fence_close (c # cs) \<Longrightarrow> isspace c \<or> c = CHR ''`''"
  by (auto simp: startswith_def)

lemma lazy_group_fenced:
  "\<exists>n\<le>length s. lazy_group (s @ CHR 0x0A # ''```'') = Some (take n s)
      \<and> (n = length s \<or> isspace (s ! n) \<or> s ! n = CHR ''`'')"
proof (induction s)
  case Nil
  then show ?case
    by (simp add: isspace_def code_point_def startswith_def)
next
  case (Cons c cs)
  show ?case
  proof (cases "fence_close ((c # cs) @ CHR 0x0A # ''```'')")
    case True
    then have "isspace c \<or> c = CHR ''`''"
      using fence_close_head [of c "cs @ CHR 0x0A # ''```''"] by simp
    then have "lazy_group ((c # cs) @ CHR 0x0A # ''```'') = Some (take 0 (c # cs))
        \<and> (0 = length (c # cs) \<or> isspace ((c # cs) ! 0) \<or> (c # cs) ! 0 = CHR ''`'')"
      using True by simp
    then show ?thesis
      by blast
  next
    case False
    obtain n where n: "n \<le> length cs" "lazy_group (cs @ CHR 0x0A # ''```'') = Some (take n cs)"
      "n = length cs \<or> isspace (cs ! n) \<or> cs ! n = CHR ''`''"
      using Cons.IH by blast
    have "lazy_group ((c # cs) @ CHR 0x0A # ''```'') = Some (take (Suc n) (c # cs))
        \<and> (Suc n = length (c # cs) \<or> isspace ((c # cs) ! Suc n) \<or> (c # cs) ! Suc n = CHR ''`'')"
      using False n by simp
    moreover have "Suc n \<le> length (c # cs)"
      using n by simp
    ultimately show ?thesis
      by blast
  qed
qed

lemma search_fence_fenced:
  assumes "lazy_group (CHR ''{'' # r @ CHR 0x0A # ''```'') = Some g"
  shows "search_fence (''```json'' @ [CHR 0x0A] @ (CHR ''{'' # r) @ [CHR 0x0A] @ ''```'') = Some g"
proof -
  have "fence_body (CHR ''{'' # r @ CHR 0x0A # ''```'') = Some g"
    using assms by (simp add: isspace_def code_point_def del: lazy_group.simps)
  then have "fence_body (CHR 0x0A # CHR ''{'' # r @ CHR 0x0A # ''```'') = Some g"
    by (simp add: isspace_def code_point_def del: lazy_group.simps)
  then show ?thesis
    by (simp add: fence_at_def startswith_def del: fence_body.simps)
qed

lemma json_loads_backtick: "json_loads lim (CHR ''`'' # cs) = Inl JSONDecodeError"
  by (simp add: json_loads_def scan_once_def json_ws_def ascii_digit_def code_point_def)

lemma greedy_close_None: "CHR ''}'' \<notin> set cs \<Longrightarrow> greedy_close cs = None"
  by (induction cs) auto

lemma greedy_close_last:
  "CHR ''}'' \<notin> set post \<Longrightarrow> greedy_close (xs @ ''}'' @ post) = Some (xs @ ''}'')"
  by (induction xs) (simp_all add: greedy_close_None)

lemma search_brace_span:
  assumes "CHR ''{'' \<notin> set pre" and "CHR ''}'' \<notin> set post"
  shows "search_brace (pre @ (CHR ''{'' # body @ ''}'') @ post) = Some (CHR ''{'' # body @ ''}'')"
  using assms(1)
proof (induction pre)
  case Nil
  have "greedy_close (body @ ''}'' @ post) = Some (body @ ''}'')"
    using assms(2) by (rule greedy_close_last)
  then show ?case by simp
next
  case (Cons c pre)
  then show ?case by auto
qed

lemma fence_at_backticks: "fence_at t = Some g \<Longrightarrow> prefix ''```'' t"
proof -
  assume "fence_at t = Some g"
  then have "startswith t ''```''"
    by (simp add: fence_at_def split: if_splits)
  then show ?thesis
    unfolding startswith_def by (metis take_is_prefix)
qed

lemma search_fence_backticks: "search_fence t = Some g \<Longrightarrow> sublist ''```'' t"
proof (induction t)
  case Nil
  then show ?case
    by (auto dest: fence_at_backticks)
next
  case (Cons c cs)
  show ?case
  proof (cases "fence_at (c # cs)")
    case None
    then show ?thesis
      using Cons by (simp add: sublist_Cons_right)
  next
    case (Some g')
    then have "prefix ''```'' (c # cs)"
      by (rule fence_at_backticks)
    then show ?thesis
      by (rule prefix_imp_sublist)
  qed
qed

lemma search_fence_None: "\<not> sublist ''```'' t \<Longrightarrow> search_fence t = None"
  using search_fence_backticks by (cases "search_fence t") auto

lemma parse_bare:
  "json_loads lim s = Inr J \<Longrightarrow> parse_llm_response lim s = Inr J"
  by (simp add: parse_llm_response_def try_loads_def)

lemma parse_fenced:
  assumes ok: "json_loads lim s = Inr J" and s: "s = CHR ''{'' # body @ ''}''"
  shows "parse_llm_response lim (''```json'' @ [CHR 0x0A] @ s @ [CHR 0x0A] @ ''```'') = Inr J"
proof -
  define t where "t = ''```json'' @ [CHR 0x0A] @ s @ [CHR 0x0A] @ ''```''"
  obtain n where n: "n \<le> length s" "lazy_group (s @ CHR 0x0A # ''```'') = Some (take n s)"
    "n = length s \<or> isspace (s ! n) \<or> s ! n = CHR ''`''"
    using lazy_group_fenced [of s] by blast
  have "lazy_group (CHR ''{'' # (body @ ''}'') @ CHR 0x0A # ''```'') = Some (take n s)"
    using n(2) by (simp add: s)
  then have "search_fence (''```json'' @ [CHR 0x0A] @ (CHR ''{'' # (body @ ''}'')) @ [CHR 0x0A] @ ''```'')
      = Some (take n s)"
    by (rule search_fence_fenced)
  then have fence: "search_fence t = Some (take n s)"
    by (simp add: t_def s)
  have whole: "json_loads lim t = Inl JSONDecodeError"
    by (simp add: t_def json_loads_backtick)
  have "CHR ''{'' \<notin> set (''```json'' @ [CHR 0x0A])" and "CHR ''}'' \<notin> set ([CHR 0x0A] @ ''```'')"
    by simp_all
  then have "search_brace ((''```json'' @ [CHR 0x0A]) @ (CHR ''{'' # body @ ''}'') @ ([CHR 0x0A] @ ''```''))
      = Some (CHR ''{'' # body @ ''}'')"
    by (rule search_brace_span)
  then have brace: "search_brace t = Some s"
    by (simp add: t_def s)
  have "parse_llm_response lim t = Inr J"
  proof (cases "n = length s")
    case True
    then show ?thesis
      using fence whole ok by (simp add: parse_llm_response_def try_loads_def)
  next
    case False
    then have "n < length s" and "isspace (s ! n) \<or> s ! n = CHR ''`''"
      using n by auto
    then have "json_loads lim (take n s) = Inl JSONDecodeError"
      using ok s by (intro prefix_rejected)
    then show ?thesis
      using fence whole brace ok by (simp add: parse_llm_response_def try_loads_def)
  qed
  then show ?thesis
    by (simp add: t_def)
qed

lemma parse_in_prose:
  assumes ok: "json_loads lim s = Inr J" and s: "s = CHR ''{'' # body @ ''}''"
    and "CHR ''{'' \<notin> set pre" and "CHR ''}'' \<notin> set post"
    and "\<not> sublist ''```'' (pre @ s @ post)"
    and "json_loads lim (pre @ s @ post) = Inl JSONDecodeError"
  shows "parse_llm_response lim (pre @ s @ post) = Inr J"
proof -
  have "search_brace (pre @ (CHR ''{'' # body @ ''}'') @ post) = Some (CHR ''{'' # body @ ''}'')"
    using assms(3,4) by (rule search_brace_span)
  then have "search_brace (pre @ s @ post) = Some s"
    by (simp add: s)
  moreover have "search_fence (pre @ s @ post) = None"
    using assms(5) by (rule search_fence_None)
  ultimately show ?thesis
    using assms(6) ok by (simp add: parse_llm_response_def try_loads_def)
qed

text \<open>
  Claim C5, as amended. Let \<open>s\<close> be a JSON text from \<open>{\<close> to \<open>}\<close> that the decoder turns into
  \<open>J\<close>. The parser returns \<open>J\<close>, not the fallback record, on (a) \<open>s\<close> itself; (b) \<open>s\<close> in a
  fenced block with the language tag \<open>json\<close>, also when \<open>s\<close> holds triple backticks inside
  a string; (c) \<open>s\<close> between two stretches of prose, when the prose before holds no opening
  brace, the prose after no closing brace, the text no triple backtick, and the text as
  a whole is not a JSON document.
\<close>

theorem parse_recovers_object:
  assumes "json_loads lim s = Inr J" and "s = CHR ''{'' # body @ ''}''"
  shows "parse_llm_response lim s = Inr J
     \<and> parse_llm_response lim (''```json'' @ [CHR 0x0A] @ s @ [CHR 0x0A] @ ''```'') = Inr J
     \<and> (CHR ''{'' \<notin> set pre \<and> CHR ''}'' \<notin> set post \<and> \<not> sublist ''```'' (pre @ s @ post)
          \<and> json_loads lim (pre @ s @ post) = Inl JSONDecodeError
         \<longrightarrow> parse_llm_response lim (pre @ s @ post) = Inr J)"
  using assms parse_bare parse_fenced parse_in_prose by blast

theorem parse_recovers_object_witness:
  "json_loads python_limits sample_response = Inr sample_record
   \<and> parse_llm_response python_limits sample_response = Inr sample_record
   \<and> parse_llm_response python_limits
        (''```json'' @ [CHR 0x0A] @ sample_response @ [CHR 0x0A] @ ''```'') = Inr sample_record
   \<and> parse_llm_response python_limits
        (''Here is the analysis you asked for:'' @ [CHR 0x0A, CHR 0x0A] @ sample_response
           @ [CHR 0x0A, CHR 0x0A] @ ''Let me know if anything is unclear.'') = Inr sample_record"
proof -
  define pre where "pre = ''Here is the analysis you asked for:'' @ [CHR 0x0A, CHR 0x0A]"
  define post where "post = [CHR 0x0A, CHR 0x0A] @ ''Let me know if anything is unclear.''"
  have h1: "json_loads python_limits sample_response = Inr sample_record"
    by code_simp
  have h2: "sample_response = CHR ''{'' # butlast (tl sample_response) @ ''}''"
    by code_simp
  have h3: "CHR ''{'' \<notin> set pre \<and> CHR ''}'' \<notin> set post
      \<and> \<not> sublist ''```'' (pre @ sample_response @ post)
      \<and> json_loads python_limits (pre @ sample_response @ post) = Inl JSONDecodeError"
    unfolding pre_def post_def by code_simp
  show ?thesis
    using h1 h3 parse_recovers_object [OF h1 h2, of pre post]
    by (simp add: pre_def post_def)
qed

text \<open>Claim C5 as stated fails in case (c): with braces in the prose before the object,
  the third rung takes the span from the first brace of the prose, which is not JSON, and
  the parser returns the fallback record.\<close>

theorem parse_prose_with_braces_falls_back:
  "json_loads python_limits sample_response = Inr sample_record
   \<and> valid_analysis sample_record
   \<and> sample_record \<noteq> fallback_response
   \<and> parse_llm_response python_limits
        (''Here is the analysis {draft}: '' @ sample_response @ '' Thanks.'') = Inr fallback_response"
  by code_simp


end
